theory Spec2Isabelle
  imports Complex_Main
begin

section \<open>Audio IO with on-the-fly resampling: the model\<close>

text \<open>
  A shallow embedding of \<^verbatim>\<open>torch_audiomentations/utils/io.py\<close> (class \<^verbatim>\<open>Audio\<close>).
  Python integers are \<open>int\<close>, tensor dimensions are \<open>nat\<close>, tensor elements and the
  results of Python's true division are idealised as \<open>real\<close>. Every \<^verbatim>\<open>raise\<close> of
  the source, and every exception its primitives raise on the modelled paths, is a
  value \<open>Inl e\<close> of the result type \<open>error + 'a\<close>.
\<close>

subsection \<open>Errors\<close>

text \<open>
  The source raises \<^verbatim>\<open>ValueError\<close> with a message for each validation failure and
  \<^verbatim>\<open>ValueError()\<close> with no message for a window that exceeds the source. Division by
  a zero rate raises \<^verbatim>\<open>ZeroDivisionError\<close>, indexing row 0 of an array without
  rows raises \<^verbatim>\<open>IndexError\<close>, reading a missing key of a dict raises
  \<^verbatim>\<open>KeyError\<close>. \<open>BackendError\<close> stands for whatever the probing
  and decoding services raise.
\<close>

datatype error =
    ValueError string
  | ZeroDivisionError
  | IndexError
  | KeyError string
  | BackendError string

text \<open>The names the specification gives to the four \<^verbatim>\<open>ValueError\<close>s of the source.\<close>

definition ShapeError :: error where
  "ShapeError = ValueError '''samples' must be provided as a (channel, time) torch.Tensor.''"

definition MissingRateError :: error where
  "MissingRateError = ValueError '''samples' must be provided with their 'sample_rate'.''"

definition AmbiguousSourceError :: error where
  "AmbiguousSourceError = ValueError ''either 'audio' or 'samples' key must be provided.''"

definition RangeOverflowError :: error where
  "RangeOverflowError = ValueError []"

subsection \<open>Tensors\<close>

text \<open>
  A tensor has a shape and, when it is two-dimensional, its data as a list of rows
  (one row per channel, one entry per time step). Tensors of another rank occur only as
  input of \<open>is_valid\<close>, which reads nothing but the shape.
\<close>

record tensor =
  shape :: "nat list"
  rows :: "real list list"

definition wf_tensor :: "tensor \<Rightarrow> bool" where
  "wf_tensor t \<longleftrightarrow>
     length (shape t) = 2 \<and> length (rows t) = shape t ! 0 \<and>
     list_all (\<lambda>r. length r = shape t ! 1) (rows t)"

subsection \<open>Python primitives\<close>

text \<open>\<^verbatim>\<open>round(x)\<close> on a float: the nearest integer, a tie going to the even one.\<close>

definition py_round :: "real \<Rightarrow> int" where
  "py_round x =
     (let f = \<lfloor>x\<rfloor>; d = x - of_int f
      in if d < 1 / 2 then f
         else if 1 / 2 < d then f + 1
         else if even f then f else f + 1)"

text \<open>
  A slice bound \<open>i\<close> on an axis of size \<open>n\<close>: a negative bound counts from the end, and
  the bound is clamped into \<open>0..n\<close>. The slice \<^verbatim>\<open>xs[i:j]\<close> is empty when the
  adjusted stop is not after the adjusted start; it never raises.
\<close>

definition slice_index :: "nat \<Rightarrow> int \<Rightarrow> nat" where
  "slice_index n i = (if i < 0 then nat (max 0 (i + int n)) else min (nat i) n)"

definition slice_len :: "nat \<Rightarrow> int \<Rightarrow> int \<Rightarrow> nat" where
  "slice_len n i j = slice_index n j - slice_index n i"

definition py_slice :: "'a list \<Rightarrow> int \<Rightarrow> int \<Rightarrow> 'a list" where
  "py_slice xs i j = take (slice_len (length xs) i j) (drop (slice_index (length xs) i) xs)"

text \<open>\<^verbatim>\<open>t[:, i:j]\<close>: the time window \<open>i..j\<close> of every channel.\<close>

definition slice_time :: "tensor \<Rightarrow> int \<Rightarrow> int \<Rightarrow> tensor" where
  "slice_time t i j =
     \<lparr>shape = [shape t ! 0, slice_len (shape t ! 1) i j],
      rows = map (\<lambda>r. py_slice r i j) (rows t)\<rparr>"

text \<open>\<^verbatim>\<open>t[i:j, :]\<close>: the channels \<open>i..j\<close>, whole.\<close>

definition slice_channel :: "tensor \<Rightarrow> int \<Rightarrow> int \<Rightarrow> tensor" where
  "slice_channel t i j =
     \<lparr>shape = [slice_len (shape t ! 0) i j, shape t ! 1],
      rows = py_slice (rows t) i j\<rparr>"

text \<open>\<^verbatim>\<open>t.mean(dim=0, keepdim=True)\<close>: one row, the mean over the channels at each time step.\<close>

definition mean_dim0 :: "tensor \<Rightarrow> tensor" where
  "mean_dim0 t =
     \<lparr>shape = [1, shape t ! 1],
      rows = [map (\<lambda>k. sum_list (map (\<lambda>r. r ! k) (rows t)) / real (shape t ! 0))
                  [0..<shape t ! 1]]\<rparr>"

text \<open>
  \<^verbatim>\<open>t.T\<close>: the axes in reverse order; of a two-dimensional array, row \<open>k\<close> of the
  result is column \<open>k\<close> of the array.
\<close>

definition transpose_t :: "tensor \<Rightarrow> tensor" where
  "transpose_t t =
     \<lparr>shape = rev (shape t),
      rows = map (\<lambda>k. map (\<lambda>r. r ! k) (rows t)) [0..<shape t ! 1]\<rparr>"

subsection \<open>Audio files and the instance\<close>

text \<open>
  \<^verbatim>\<open>AudioFile = Union[Path, Text, dict]\<close>. Of a dict the source reads the keys
  \<^verbatim>\<open>"samples"\<close>, \<^verbatim>\<open>"sample_rate"\<close>, \<^verbatim>\<open>"audio"\<close> and \<^verbatim>\<open>"channel"\<close>, each of which
  may be missing; \<open>None\<close> is a missing key (for \<^verbatim>\<open>"sample_rate"\<close> and
  \<^verbatim>\<open>"channel"\<close>, which the source reads with \<^verbatim>\<open>file.get(key, None)\<close>, also a key
  bound to \<^verbatim>\<open>None\<close>).
\<close>

record file_dict =
  samples :: "tensor option"
  sample_rate :: "int option"
  audio :: "string option"
  channel :: "int option"

datatype audio_file = Path string | Dict file_dict

text \<open>The instance: \<^verbatim>\<open>self.sample_rate\<close> (the target rate) and \<^verbatim>\<open>self.mono\<close>.\<close>

record audio_cfg =
  target_rate :: int
  mono :: bool

text \<open>
  The services the source calls and does not implement, as parameters:
  \<^verbatim>\<open>torchaudio.info(path)\<close>, of which the source reads \<^verbatim>\<open>sample_rate\<close> and
  \<^verbatim>\<open>num_frames\<close>; \<^verbatim>\<open>torchaudio.load(path, frame_offset, num_frames)\<close>, of which
  it keeps the tensor; and \<^verbatim>\<open>librosa.core.resample(y, orig_sr, target_sr)\<close>, which the
  source calls on a one-dimensional array (\<open>resample1\<close>) and on a two-dimensional one
  (\<open>resample2\<close>).
\<close>

record backend =
  info :: "string \<Rightarrow> error + (int \<times> int)"
  load :: "string \<Rightarrow> int \<Rightarrow> int \<Rightarrow> error + tensor"
  resample1 :: "real list \<Rightarrow> int \<Rightarrow> int \<Rightarrow> real list"
  resample2 :: "tensor \<Rightarrow> int \<Rightarrow> int \<Rightarrow> tensor"

subsection \<open>\<^verbatim>\<open>Audio.is_valid\<close>\<close>

definition is_valid :: "audio_file \<Rightarrow> error + bool" where
  "is_valid file =
     (case file of
        Dict d \<Rightarrow>
          (case samples d of
             Some s \<Rightarrow>
               if length (shape s) \<noteq> 2 \<or> shape s ! 0 > shape s ! 1 then Inl ShapeError
               else (case sample_rate d of
                       None \<Rightarrow> Inl MissingRateError
                     | Some _ \<Rightarrow> Inr True)
           | None \<Rightarrow>
               (case audio d of
                  Some _ \<Rightarrow> Inr True
                | None \<Rightarrow> Inl AmbiguousSourceError))
      | Path _ \<Rightarrow> Inr True)"

subsection \<open>\<^verbatim>\<open>Audio.rms_normalize\<close>\<close>

text \<open>
  \<^verbatim>\<open>samples.square().mean(dim=1).sqrt()\<close>: one number per channel. (On a buffer
  without time steps torch's mean is not a number; the model's is 0, and no element is
  there to be scaled by it.)
\<close>

definition rms :: "tensor \<Rightarrow> real list" where
  "rms t = map (\<lambda>r. sqrt (sum_list (map (\<lambda>x. x\<^sup>2) r) / real (shape t ! 1))) (rows t)"

text \<open>
  \<^verbatim>\<open>m / v\<close> for a matrix \<open>m\<close> of shape \<open>(T, C)\<close> and a vector \<open>v\<close> of \<open>C\<close> entries
  broadcasts \<open>v\<close> over the rows of \<open>m\<close>.
\<close>

definition div_broadcast :: "tensor \<Rightarrow> real list \<Rightarrow> tensor" where
  "div_broadcast m v = m\<lparr>rows := map (\<lambda>row. map2 (\<lambda>x d. x / d) row v) (rows m)\<rparr>"

definition rms_normalize :: "tensor \<Rightarrow> tensor" where
  "rms_normalize t =
     transpose_t (div_broadcast (transpose_t t) (map (\<lambda>m. m + 1 / 10 ^ 8) (rms t)))"

subsection \<open>\<^verbatim>\<open>Audio.get_num_samples\<close>\<close>

definition get_num_samples :: "backend \<Rightarrow> audio_cfg \<Rightarrow> audio_file \<Rightarrow> error + real" where
  "get_num_samples be a file =
     (case is_valid file of
        Inl e \<Rightarrow> Inl e
      | Inr _ \<Rightarrow>
         (case (case file of
                  Dict d \<Rightarrow>
                    (case samples d of
                       Some s \<Rightarrow>
                         (case sample_rate d of
                            None \<Rightarrow> Inl (KeyError ''sample_rate'')
                          | Some r \<Rightarrow> Inr (int (shape s ! 1), r))
                     | None \<Rightarrow>
                         (case audio d of
                            None \<Rightarrow> Inl (KeyError ''audio'')
                          | Some p \<Rightarrow>
                              (case info be p of
                                 Inl e \<Rightarrow> Inl e
                               | Inr (r, n) \<Rightarrow> Inr (n, r))))
                | Path p \<Rightarrow>
                    (case info be p of
                       Inl e \<Rightarrow> Inl e
                     | Inr (r, n) \<Rightarrow> Inr (n, r))) of
            Inl e \<Rightarrow> Inl e
          | Inr (num_samples, rate) \<Rightarrow>
              if rate = 0 then Inl ZeroDivisionError
              else Inr (real_of_int (num_samples * target_rate a) / real_of_int rate)))"

subsection \<open>\<^verbatim>\<open>Audio.downmix_and_resample\<close>\<close>

definition downmix_and_resample :: "backend \<Rightarrow> audio_cfg \<Rightarrow> tensor \<Rightarrow> int \<Rightarrow> error + tensor" where
  "downmix_and_resample be a samples0 rate =
     (let samples1 = (if mono a \<and> shape samples0 ! 0 > 1 then mean_dim0 samples0 else samples0)
      in if target_rate a \<noteq> rate then
           (if mono a then
              (case rows samples1 of
                 [] \<Rightarrow> Inl IndexError
               | r # _ \<Rightarrow>
                   (let y = resample1 be r rate (target_rate a)
                    in Inr \<lparr>shape = [1, length y], rows = [y]\<rparr>))
            else Inr (transpose_t (resample2 be (transpose_t samples1) rate (target_rate a))))
         else Inr samples1)"

subsection \<open>\<^verbatim>\<open>Audio.__call__\<close>, the read\<close>

text \<open>
  Where the samples come from: the tensor of the dict (\<^verbatim>\<open>original_samples\<close> is not
  \<^verbatim>\<open>None\<close>) or the file at \<^verbatim>\<open>audio_path\<close>.
\<close>

datatype source = Memory tensor | File string

text \<open>
  The first part of \<^verbatim>\<open>__call__\<close>: the source, \<^verbatim>\<open>original_sample_rate\<close>,
  \<^verbatim>\<open>original_total_num_samples\<close> and \<^verbatim>\<open>channel\<close>.
\<close>

definition resolve :: "backend \<Rightarrow> audio_file \<Rightarrow> error + (source \<times> int \<times> int \<times> int option)" where
  "resolve be file =
     (case file of
        Dict d \<Rightarrow>
          (case samples d of
             Some s \<Rightarrow>
               (case sample_rate d of
                  None \<Rightarrow> Inl (KeyError ''sample_rate'')
                | Some r \<Rightarrow> Inr (Memory s, r, int (shape s ! 1), channel d))
           | None \<Rightarrow>
               (case audio d of
                  None \<Rightarrow> Inl (KeyError ''audio'')
                | Some p \<Rightarrow>
                    (case info be p of
                       Inl e \<Rightarrow> Inl e
                     | Inr (r, n) \<Rightarrow> Inr (File p, r, n, channel d))))
      | Path p \<Rightarrow>
          (case info be p of
             Inl e \<Rightarrow> Inl e
           | Inr (r, n) \<Rightarrow> Inr (File p, r, n, None)))"

text \<open>
  The second part of \<^verbatim>\<open>__call__\<close>, from the bounds check on: given the window
  \<^verbatim>\<open>original_sample_offset\<close>, \<^verbatim>\<open>original_num_samples\<close> at the native rate, check
  it, read it (\<^verbatim>\<open>torchaudio.load\<close>, or a slice of the tensor), select the channel,
  downmix and resample.
\<close>

definition read_window ::
  "backend \<Rightarrow> audio_cfg \<Rightarrow> source \<Rightarrow> int \<Rightarrow> int \<Rightarrow> int option \<Rightarrow> int \<Rightarrow> int \<Rightarrow> error + tensor" where
  "read_window be a src original_sample_rate original_total_num_samples chan
               original_sample_offset original_num_samples =
     (if original_sample_offset + original_num_samples > original_total_num_samples
      then Inl (ValueError [])
      else
        (case (case src of
                 File audio_path \<Rightarrow>
                   load be audio_path original_sample_offset original_num_samples
               | Memory original_samples \<Rightarrow>
                   Inr (slice_time original_samples original_sample_offset
                          (original_sample_offset + original_num_samples))) of
           Inl e \<Rightarrow> Inl e
         | Inr original_data \<Rightarrow>
             downmix_and_resample be a
               (case chan of
                  None \<Rightarrow> original_data
                | Some c \<Rightarrow> slice_channel original_data (c - 1) c)
               original_sample_rate))"

text \<open>
  \<^verbatim>\<open>__call__\<close>: validate, resolve the source, translate the window to the native rate
  (a zero target rate makes the division raise), and read it.
\<close>

definition call :: "backend \<Rightarrow> audio_cfg \<Rightarrow> audio_file \<Rightarrow> int \<Rightarrow> int option \<Rightarrow> error + tensor" where
  "call be a file sample_offset num_samples =
     (case is_valid file of
        Inl e \<Rightarrow> Inl e
      | Inr _ \<Rightarrow>
         (case resolve be file of
            Inl e \<Rightarrow> Inl e
          | Inr (src, original_sample_rate, original_total_num_samples, chan) \<Rightarrow>
              if target_rate a = 0 then Inl ZeroDivisionError
              else
                (let original_sample_offset =
                       py_round (real_of_int (sample_offset * original_sample_rate)
                                 / real_of_int (target_rate a));
                     original_num_samples =
                       (case num_samples of
                          None \<Rightarrow> original_total_num_samples - original_sample_offset
                        | Some n \<Rightarrow>
                            py_round (real_of_int (n * original_sample_rate)
                                      / real_of_int (target_rate a)))
                 in read_window be a src original_sample_rate original_total_num_samples chan
                      original_sample_offset original_num_samples)))"

subsection \<open>The range translator, in the specification's words\<close>

text \<open>
  The specification names three functions; the source has their bodies inline in
  \<^verbatim>\<open>get_num_samples\<close> and \<^verbatim>\<open>__call__\<close>.
\<close>

definition project_length :: "int \<Rightarrow> int \<Rightarrow> int \<Rightarrow> real" where
  "project_length native_total_samples native_rate target =
     real_of_int native_total_samples * real_of_int target / real_of_int native_rate"

definition to_native_offset :: "int \<Rightarrow> int \<Rightarrow> int \<Rightarrow> int" where
  "to_native_offset target_offset native_rate target =
     py_round (real_of_int target_offset * real_of_int native_rate / real_of_int target)"

definition to_native_length :: "int \<Rightarrow> int \<Rightarrow> int \<Rightarrow> int" where
  "to_native_length target_length native_rate target =
     py_round (real_of_int target_length * real_of_int native_rate / real_of_int target)"

subsection \<open>A stand-in backend and sample inputs\<close>

text \<open>
  A backend without files, whose resampler returns its input: enough to run the read on
  in-memory sources.
\<close>

definition stub :: backend where
  "stub =
     \<lparr>info = (\<lambda>p. Inl (BackendError p)),
      load = (\<lambda>p i n. Inl (BackendError p)),
      resample1 = (\<lambda>y r r'. y),
      resample2 = (\<lambda>t r r'. t)\<rparr>"

text \<open>A stereo buffer of three time steps, and the dict that carries a buffer.\<close>

definition stereo :: tensor where
  "stereo = \<lparr>shape = [2, 3], rows = [[1, 2, 3], [4, 5, 6]]\<rparr>"

definition in_memory :: "tensor \<Rightarrow> int \<Rightarrow> int option \<Rightarrow> audio_file" where
  "in_memory t r c = Dict \<lparr>samples = Some t, sample_rate = Some r, audio = None, channel = c\<rparr>"

section \<open>Properties\<close>

subsection \<open>Rounding and slicing\<close>

lemma py_round_near: "\<bar>real_of_int (py_round x) - x\<bar> \<le> 1 / 2"
  unfolding py_round_def Let_def by (auto simp: abs_le_iff; linarith)

lemma slice_len_single: "1 \<le> c \<Longrightarrow> c \<le> int n \<Longrightarrow> slice_len n (c - 1) c = 1"
  by (auto simp: slice_index_def slice_len_def)

lemma slice_len_outside: "c = 0 \<or> int n < c \<Longrightarrow> slice_len n (c - 1) c = 0"
  by (auto simp: slice_index_def slice_len_def)

lemma slice_len_whole: "slice_len n 0 (int n) = n"
  by (simp add: slice_len_def slice_index_def)

lemma slice_len_past: "int n < i \<Longrightarrow> slice_len m i (int n) = 0"
  by (auto simp: slice_len_def slice_index_def)

lemma py_slice_single:
  assumes "1 \<le> c" and "c \<le> int (length xs)"
  shows "py_slice xs (c - 1) c = [xs ! nat (c - 1)]"
proof -
  have i: "slice_index (length xs) (c - 1) = nat (c - 1)"
    using assms by (auto simp: slice_index_def)
  have "nat (c - 1) < length xs"
    using assms by linarith
  then have "take 1 (drop (nat (c - 1)) xs) = [xs ! nat (c - 1)]"
    by (simp add: Cons_nth_drop_Suc [symmetric])
  then show ?thesis
    using assms by (simp add: py_slice_def i slice_len_single)
qed

lemma py_slice_outside: "c = 0 \<or> int (length xs) < c \<Longrightarrow> py_slice xs (c - 1) c = []"
  by (simp add: py_slice_def slice_len_outside)

lemma py_slice_whole: "py_slice xs 0 (int (length xs)) = xs"
  by (simp add: py_slice_def slice_len_def slice_index_def)

lemma py_slice_past: "int n < i \<Longrightarrow> py_slice xs i (int n) = []"
  by (simp add: py_slice_def slice_len_past)

subsection \<open>Well-formed tensors\<close>

lemma wf_shape: "wf_tensor t \<Longrightarrow> shape t = [shape t ! 0, shape t ! 1]"
  by (cases "shape t"; cases "tl (shape t)") (auto simp: wf_tensor_def)

lemma wf_row_length: "wf_tensor t \<Longrightarrow> r \<in> set (rows t) \<Longrightarrow> length r = shape t ! 1"
  by (simp add: wf_tensor_def list_all_iff)

lemma wf_stereo: "wf_tensor stereo"
  by (simp add: wf_tensor_def stereo_def)

lemma slice_time_whole:
  assumes "wf_tensor t"
  shows "slice_time t 0 (int (shape t ! 1)) = t"
proof -
  have "\<And>r. r \<in> set (rows t) \<Longrightarrow> py_slice r 0 (int (shape t ! 1)) = r"
    using wf_row_length [OF assms] py_slice_whole by metis
  then have "map (\<lambda>r. py_slice r 0 (int (shape t ! 1))) (rows t) = rows t"
    by (simp add: map_idI)
  then show ?thesis
    using wf_shape [OF assms] by (simp add: slice_time_def slice_len_whole)
qed

lemma slice_time_past:
  "int (shape t ! 1) < i \<Longrightarrow>
   slice_time t i (int (shape t ! 1)) =
     \<lparr>shape = [shape t ! 0, 0], rows = map (\<lambda>r. []) (rows t)\<rparr>"
  by (simp add: slice_time_def slice_len_past py_slice_past)

lemma slice_channel_single:
  assumes "wf_tensor t" and "1 \<le> c" and "c \<le> int (shape t ! 0)"
  shows "slice_channel t (c - 1) c =
           \<lparr>shape = [1, shape t ! 1], rows = [rows t ! nat (c - 1)]\<rparr>"
  using assms
  by (simp add: slice_channel_def slice_len_single py_slice_single wf_tensor_def)

lemma slice_channel_outside:
  assumes "wf_tensor t" and "c = 0 \<or> int (shape t ! 0) < c"
  shows "slice_channel t (c - 1) c = \<lparr>shape = [0, shape t ! 1], rows = []\<rparr>"
  using assms
  by (simp add: slice_channel_def slice_len_outside py_slice_outside wf_tensor_def)

lemma wf_slice_time: "wf_tensor t \<Longrightarrow> wf_tensor (slice_time t i j)"
  by (auto simp: wf_tensor_def slice_time_def list_all_iff py_slice_def slice_len_def
        slice_index_def)

subsection \<open>The read, step by step\<close>

text \<open>
  Once the file is valid, its source resolved and the target rate not zero, the read is
  the second part of \<^verbatim>\<open>__call__\<close> on the translated window.
\<close>

lemma call_window:
  assumes "is_valid file = Inr v" and "resolve be file = Inr (src, rate, frames, chan)"
    and "target_rate a \<noteq> 0"
  shows "call be a file off n =
     read_window be a src rate frames chan (to_native_offset off rate (target_rate a))
       (case n of
          None \<Rightarrow> frames - to_native_offset off rate (target_rate a)
        | Some k \<Rightarrow> to_native_length k rate (target_rate a))"
  using assms
  by (cases n) (simp_all add: call_def to_native_offset_def to_native_length_def Let_def)

lemma resolve_in_memory:
  "samples d = Some s \<Longrightarrow> sample_rate d = Some r \<Longrightarrow>
   resolve be (Dict d) = Inr (Memory s, r, int (shape s ! 1), channel d)"
  by (simp add: resolve_def)

lemma stereo_valid: "is_valid (in_memory stereo r c) = Inr True"
  by (simp add: is_valid_def in_memory_def stereo_def)

lemma stereo_resolve: "resolve be (in_memory stereo r c) = Inr (Memory stereo, r, 3, c)"
  by (simp add: resolve_def in_memory_def stereo_def)

subsection \<open>Validation\<close>

text \<open>
  C5, as the code has it. \<open>is_valid\<close> passes a bare path. Of a dict it looks at the
  samples first: samples whose shape is not two-dimensional, or with more channels than
  time steps, fail with \<open>ShapeError\<close> (whatever else the dict holds); well-shaped
  samples without a sample rate fail with \<open>MissingRateError\<close>; well-shaped samples with
  a rate pass. A dict without samples passes if it holds a path and fails with
  \<open>AmbiguousSourceError\<close> if it does not. These cases are all there are, so
  \<open>is_valid\<close> fails in exactly the three failing ones. The check is a function of the
  file alone: it has no backend to call and no state to change.
\<close>

theorem is_valid_cases:
  "is_valid (Path p) = Inr True \<and>
   (samples d = Some s \<and> (length (shape s) \<noteq> 2 \<or> shape s ! 1 < shape s ! 0)
      \<longrightarrow> is_valid (Dict d) = Inl ShapeError) \<and>
   (samples d = Some s \<and> length (shape s) = 2 \<and> shape s ! 0 \<le> shape s ! 1 \<and>
    sample_rate d = None
      \<longrightarrow> is_valid (Dict d) = Inl MissingRateError) \<and>
   (samples d = Some s \<and> length (shape s) = 2 \<and> shape s ! 0 \<le> shape s ! 1 \<and>
    sample_rate d \<noteq> None
      \<longrightarrow> is_valid (Dict d) = Inr True) \<and>
   (samples d = None \<and> audio d = None \<longrightarrow> is_valid (Dict d) = Inl AmbiguousSourceError) \<and>
   (samples d = None \<and> audio d \<noteq> None \<longrightarrow> is_valid (Dict d) = Inr True) \<and>
   ((\<exists>e. is_valid file = Inl e) \<longleftrightarrow>
      (\<exists>d'. file = Dict d' \<and>
         ((\<exists>s'. samples d' = Some s' \<and>
              (length (shape s') \<noteq> 2 \<or> shape s' ! 1 < shape s' ! 0 \<or> sample_rate d' = None)) \<or>
          (samples d' = None \<and> audio d' = None))))"
  by (auto simp: is_valid_def split: option.splits audio_file.splits)

theorem is_valid_cases_witness:
  "is_valid (Dict \<lparr>samples = Some \<lparr>shape = [3], rows = []\<rparr>, sample_rate = None,
                   audio = None, channel = None\<rparr>) = Inl ShapeError \<and>
   is_valid (Dict \<lparr>samples = Some stereo, sample_rate = None,
                   audio = None, channel = None\<rparr>) = Inl MissingRateError \<and>
   is_valid (Dict \<lparr>samples = Some stereo, sample_rate = Some 16000,
                   audio = None, channel = None\<rparr>) = Inr True \<and>
   is_valid (Dict \<lparr>samples = None, sample_rate = Some 16000,
                   audio = None, channel = Some 1\<rparr>) = Inl AmbiguousSourceError \<and>
   is_valid (Dict \<lparr>samples = None, sample_rate = None,
                   audio = Some ''a.wav'', channel = Some 1\<rparr>) = Inr True"
  using
    is_valid_cases [of "''a.wav''"
      "\<lparr>samples = Some \<lparr>shape = [3], rows = []\<rparr>, sample_rate = None,
        audio = None, channel = None\<rparr>" "\<lparr>shape = [3], rows = []\<rparr>"]
    is_valid_cases [of "''a.wav''"
      "\<lparr>samples = Some stereo, sample_rate = None, audio = None, channel = None\<rparr>" stereo]
    is_valid_cases [of "''a.wav''"
      "\<lparr>samples = Some stereo, sample_rate = Some 16000, audio = None, channel = None\<rparr>"
      stereo]
    is_valid_cases [of "''a.wav''"
      "\<lparr>samples = None, sample_rate = Some 16000, audio = None, channel = Some 1\<rparr>" stereo]
    is_valid_cases [of "''a.wav''"
      "\<lparr>samples = None, sample_rate = None, audio = Some ''a.wav'', channel = Some 1\<rparr>"
      stereo]
  by (simp add: stereo_def)

text \<open>
  C5 as the specification words it lets every dict that holds a path pass. A dict that
  holds a path and, beside it, samples of shape \<open>(3, 2)\<close> fails: the samples are looked
  at first.
\<close>

theorem is_valid_path_counterexample:
  "audio \<lparr>samples = Some \<lparr>shape = [3, 2], rows = [[0, 0], [0, 0], [0, 0]]\<rparr>,
          sample_rate = Some 16000, audio = Some ''a.wav'', channel = None\<rparr> = Some ''a.wav'' \<and>
   is_valid (Dict \<lparr>samples = Some \<lparr>shape = [3, 2], rows = [[0, 0], [0, 0], [0, 0]]\<rparr>,
                   sample_rate = Some 16000, audio = Some ''a.wav'', channel = None\<rparr>)
     = Inl ShapeError"
  by (simp add: is_valid_def)

subsection \<open>The window at the native rate\<close>

text \<open>
  C2. A read whose window at the native rate ends after the last sample of the source
  fails with \<open>RangeOverflowError\<close>: it returns no buffer, truncated or otherwise.
\<close>

theorem overflow_rejected:
  assumes "is_valid file = Inr v" and "resolve be file = Inr (src, rate, frames, chan)"
    and "target_rate a \<noteq> 0"
    and "frames < to_native_offset off rate (target_rate a)
                  + (case n of
                       None \<Rightarrow> frames - to_native_offset off rate (target_rate a)
                     | Some k \<Rightarrow> to_native_length k rate (target_rate a))"
  shows "call be a file off n = Inl RangeOverflowError \<and> (\<forall>y. call be a file off n \<noteq> Inr y)"
  using assms by (simp add: call_window read_window_def RangeOverflowError_def)

theorem overflow_rejected_witness:
  "call stub \<lparr>target_rate = 16000, mono = True\<rparr> (in_memory stereo 16000 None) 2 (Some 2)
     = Inl RangeOverflowError"
  using overflow_rejected [of "in_memory stereo 16000 None" True stub "Memory stereo" 16000 3
      None "\<lparr>target_rate = 16000, mono = True\<rparr>" 2 "Some 2"]
  by (simp add: stereo_valid stereo_resolve to_native_offset_def to_native_length_def
        py_round_def)

text \<open>
  C3. The read translates its window to the native rate: the offset is
  \<open>to_native_offset\<close> of the requested offset, the length is \<open>to_native_length\<close> of
  the requested length (a function of the length and the two rates, not of the offset)
  or, with no length requested, what is left of the source after the offset. Both
  roundings are to a nearest integer.
\<close>

theorem window_translation:
  assumes "is_valid file = Inr v" and "resolve be file = Inr (src, rate, frames, chan)"
    and "target_rate a \<noteq> 0"
  shows "call be a file off (Some k) =
           read_window be a src rate frames chan
             (to_native_offset off rate (target_rate a))
             (to_native_length k rate (target_rate a)) \<and>
         call be a file off None =
           read_window be a src rate frames chan
             (to_native_offset off rate (target_rate a))
             (frames - to_native_offset off rate (target_rate a)) \<and>
         \<bar>real_of_int (to_native_offset off rate (target_rate a))
            - real_of_int off * real_of_int rate / real_of_int (target_rate a)\<bar> \<le> 1 / 2 \<and>
         \<bar>real_of_int (to_native_length k rate (target_rate a))
            - real_of_int k * real_of_int rate / real_of_int (target_rate a)\<bar> \<le> 1 / 2"
proof (intro conjI)
  show "call be a file off (Some k) =
          read_window be a src rate frames chan
            (to_native_offset off rate (target_rate a))
            (to_native_length k rate (target_rate a))"
    using call_window [OF assms, of off "Some k"] by simp
  show "call be a file off None =
          read_window be a src rate frames chan
            (to_native_offset off rate (target_rate a))
            (frames - to_native_offset off rate (target_rate a))"
    using call_window [OF assms, of off None] by simp
  show "\<bar>real_of_int (to_native_offset off rate (target_rate a))
          - real_of_int off * real_of_int rate / real_of_int (target_rate a)\<bar> \<le> 1 / 2"
    unfolding to_native_offset_def by (rule py_round_near)
  show "\<bar>real_of_int (to_native_length k rate (target_rate a))
          - real_of_int k * real_of_int rate / real_of_int (target_rate a)\<bar> \<le> 1 / 2"
    unfolding to_native_length_def by (rule py_round_near)
qed

theorem window_translation_witness:
  "call stub \<lparr>target_rate = 2, mono = False\<rparr> (in_memory stereo 3 None) 1 (Some 1) =
     read_window stub \<lparr>target_rate = 2, mono = False\<rparr> (Memory stereo) 3 3 None 2 2 \<and>
   call stub \<lparr>target_rate = 2, mono = False\<rparr> (in_memory stereo 3 None) 1 None =
     read_window stub \<lparr>target_rate = 2, mono = False\<rparr> (Memory stereo) 3 3 None 2 1"
  using window_translation [of "in_memory stereo 3 None" True stub "Memory stereo" 3 3 None
      "\<lparr>target_rate = 2, mono = False\<rparr>" 1 1]
  by (simp add: stereo_valid stereo_resolve to_native_offset_def to_native_length_def
        py_round_def)

text \<open>
  C4. For a valid file whose source resolves to a rate other than zero,
  \<open>get_num_samples\<close> is \<open>project_length\<close>: the length of the source times the target
  rate, divided by the native rate, not rounded. Three samples at rate 2 are a sample
  and a half at rate 1.
\<close>

theorem get_num_samples_projects:
  assumes "is_valid file = Inr v" and "resolve be file = Inr (src, rate, frames, chan)"
    and "rate \<noteq> 0"
  shows "get_num_samples be a file = Inr (project_length frames rate (target_rate a))"
  using assms
  by (auto simp: get_num_samples_def resolve_def project_length_def
           split: audio_file.splits option.splits sum.splits)

theorem get_num_samples_projects_witness:
  "get_num_samples stub \<lparr>target_rate = 1, mono = True\<rparr> (in_memory stereo 2 None)
     = Inr (3 / 2)"
  using get_num_samples_projects [of "in_memory stereo 2 None" True stub "Memory stereo" 2 3
      None "\<lparr>target_rate = 1, mono = True\<rparr>"]
  by (simp add: stereo_valid stereo_resolve project_length_def)

subsection \<open>Downmix and resample\<close>

lemma py_round_of_int: "py_round (real_of_int k) = k"
  by (simp add: py_round_def)

lemma to_native_offset_same: "r \<noteq> 0 \<Longrightarrow> to_native_offset k r r = k"
  by (simp add: to_native_offset_def py_round_of_int)

lemma to_native_length_same: "r \<noteq> 0 \<Longrightarrow> to_native_length k r r = k"
  by (simp add: to_native_length_def py_round_of_int)

lemma downmix_only:
  "target_rate a = rate \<Longrightarrow>
   downmix_and_resample be a t rate = Inr (if mono a \<and> 1 < shape t ! 0 then mean_dim0 t else t)"
  by (simp add: downmix_and_resample_def)

lemma is_valid_in_memory:
  "samples d = Some x \<Longrightarrow> sample_rate d = Some r \<Longrightarrow> length (shape x) = 2 \<Longrightarrow>
   shape x ! 0 \<le> shape x ! 1 \<Longrightarrow> is_valid (Dict d) = Inr True"
  by (simp add: is_valid_def)

lemma mean_dim0_two:
  assumes "length x = n" and "length y = n"
  shows "mean_dim0 \<lparr>shape = [2, n], rows = [x, y]\<rparr> =
           \<lparr>shape = [1, n], rows = [map2 (\<lambda>u v. (u + v) / 2) x y]\<rparr>"
proof -
  have "map (\<lambda>k. (x ! k + y ! k) / 2) [0..<n] = map2 (\<lambda>u v. (u + v) / 2) x y"
    using assms by (intro nth_equalityI) simp_all
  then show ?thesis by (simp add: mean_dim0_def)
qed

lemma mean_dim0_nth:
  "k < shape t ! 1 \<Longrightarrow>
   hd (rows (mean_dim0 t)) ! k = sum_list (map (\<lambda>r. r ! k) (rows t)) / real (shape t ! 0)"
  by (simp add: mean_dim0_def)

text \<open>
  C6. An in-memory source whose rate is the target rate (and not zero) is read without
  the resampler: the right-hand side names no backend. The window is the one asked for,
  the channel is selected from it, and the only change to the samples is the mean over
  the channels of a mono instance. The whole of a well-formed buffer, read with no
  channel selected, comes back as it is.
\<close>

theorem native_rate_fast_path:
  assumes "samples d = Some x" and "sample_rate d = Some r"
    and "length (shape x) = 2" and "shape x ! 0 \<le> shape x ! 1"
    and "target_rate a = r" and "r \<noteq> 0"
  shows "call be a (Dict d) off n =
           (let l = (case n of None \<Rightarrow> int (shape x ! 1) - off | Some k \<Rightarrow> k);
                y = slice_time x off (off + l);
                z = (case channel d of None \<Rightarrow> y | Some c \<Rightarrow> slice_channel y (c - 1) c)
            in if int (shape x ! 1) < off + l then Inl RangeOverflowError
               else Inr (if mono a \<and> 1 < shape z ! 0 then mean_dim0 z else z)) \<and>
         (wf_tensor x \<and> channel d = None \<longrightarrow>
            call be a (Dict d) 0 None =
              Inr (if mono a \<and> 1 < shape x ! 0 then mean_dim0 x else x))"
proof -
  have v: "is_valid (Dict d) = Inr True"
    using assms by (simp add: is_valid_in_memory)
  have t: "target_rate a \<noteq> 0"
    using assms by simp
  note w = call_window [OF v resolve_in_memory [OF assms(1,2)] t]
  have general: "call be a (Dict d) off n =
           (let l = (case n of None \<Rightarrow> int (shape x ! 1) - off | Some k \<Rightarrow> k);
                y = slice_time x off (off + l);
                z = (case channel d of None \<Rightarrow> y | Some c \<Rightarrow> slice_channel y (c - 1) c)
            in if int (shape x ! 1) < off + l then Inl RangeOverflowError
               else Inr (if mono a \<and> 1 < shape z ! 0 then mean_dim0 z else z))" for off n
    using assms(5,6)
    by (cases n; cases "channel d")
       (simp_all add: w to_native_offset_same to_native_length_same read_window_def
          downmix_only RangeOverflowError_def Let_def)
  have whole: "call be a (Dict d) 0 None =
              Inr (if mono a \<and> 1 < shape x ! 0 then mean_dim0 x else x)"
    if "wf_tensor x" and "channel d = None"
    using that by (simp add: general slice_time_whole [simplified] Let_def)
  from general whole show ?thesis by blast
qed

theorem native_rate_fast_path_witness:
  "call stub \<lparr>target_rate = 16000, mono = False\<rparr> (in_memory stereo 16000 None) 0 None
     = Inr stereo \<and>
   call stub \<lparr>target_rate = 16000, mono = True\<rparr> (in_memory stereo 16000 None) 0 None
     = Inr \<lparr>shape = [1, 3], rows = [[5 / 2, 7 / 2, 9 / 2]]\<rparr>"
proof -
  let ?d = "\<lparr>samples = Some stereo, sample_rate = Some 16000, audio = None, channel = None\<rparr>"
  have h: "samples ?d = Some stereo" "sample_rate ?d = Some 16000"
    "length (shape stereo) = 2" "shape stereo ! 0 \<le> shape stereo ! 1"
    by (simp_all add: stereo_def)
  have c: "wf_tensor stereo \<and> channel ?d = None"
    by (simp add: wf_stereo)
  have m: "mean_dim0 stereo = \<lparr>shape = [1, 3], rows = [[5 / 2, 7 / 2, 9 / 2]]\<rparr>"
    by (simp add: stereo_def mean_dim0_def upt_rec)
  have s: "1 < shape stereo ! 0"
    by (simp add: stereo_def)
  have "call stub \<lparr>target_rate = 16000, mono = False\<rparr> (Dict ?d) 0 None = Inr stereo"
    using native_rate_fast_path [of ?d stereo 16000 "\<lparr>target_rate = 16000, mono = False\<rparr>"
        stub 0 None, OF h, THEN conjunct2] c
    by simp
  moreover have "call stub \<lparr>target_rate = 16000, mono = True\<rparr> (Dict ?d) 0 None
      = Inr (mean_dim0 stereo)"
    using native_rate_fast_path [of ?d stereo 16000 "\<lparr>target_rate = 16000, mono = True\<rparr>"
        stub 0 None, OF h, THEN conjunct2] c s
    by simp
  ultimately show ?thesis
    by (simp add: in_memory_def m)
qed

text \<open>
  C7. A mono instance replaces a buffer of more than one channel by the mean over its
  channels: one row, as long as the time axis, its entry at each time step the sum of the
  channels' entries divided by their number. When the rates differ it is this row that
  the resampler gets, so the downmix comes first. For two channels \<open>x\<close> and \<open>y\<close> the
  row is \<open>(x + y) / 2\<close>, entry by entry.
\<close>

theorem downmix_mean:
  assumes "mono a" and "1 < shape t ! 0"
  shows "downmix_and_resample be a t rate =
           (if target_rate a = rate then Inr (mean_dim0 t)
            else Inr \<lparr>shape = [1, length (resample1 be (hd (rows (mean_dim0 t))) rate (target_rate a))],
                      rows = [resample1 be (hd (rows (mean_dim0 t))) rate (target_rate a)]\<rparr>) \<and>
         shape (mean_dim0 t) = [1, shape t ! 1] \<and>
         length (hd (rows (mean_dim0 t))) = shape t ! 1 \<and>
         (\<forall>k < shape t ! 1.
            hd (rows (mean_dim0 t)) ! k
              = sum_list (map (\<lambda>r. r ! k) (rows t)) / real (shape t ! 0)) \<and>
         (t = \<lparr>shape = [2, n], rows = [x, y]\<rparr> \<and> length x = n \<and> length y = n \<longrightarrow>
            mean_dim0 t = \<lparr>shape = [1, n], rows = [map2 (\<lambda>u v. (u + v) / 2) x y]\<rparr>)"
  using assms
  by (auto simp: downmix_and_resample_def Let_def mean_dim0_two mean_dim0_nth)
     (simp_all add: mean_dim0_def Let_def)

theorem downmix_mean_witness:
  "downmix_and_resample stub \<lparr>target_rate = 16000, mono = True\<rparr> stereo 16000
     = Inr \<lparr>shape = [1, 3], rows = [[5 / 2, 7 / 2, 9 / 2]]\<rparr> \<and>
   downmix_and_resample stub \<lparr>target_rate = 8000, mono = True\<rparr> stereo 16000
     = Inr \<lparr>shape = [1, 3], rows = [[5 / 2, 7 / 2, 9 / 2]]\<rparr>"
  using
    downmix_mean [of "\<lparr>target_rate = 16000, mono = True\<rparr>" stereo stub 16000 3
       "[1, 2, 3]" "[4, 5, 6]"]
    downmix_mean [of "\<lparr>target_rate = 8000, mono = True\<rparr>" stereo stub 16000 3
       "[1, 2, 3]" "[4, 5, 6]"]
  by (simp add: stereo_def stub_def)

subsection \<open>Power normalisation\<close>

lemma wf_rev_shape: "wf_tensor t \<Longrightarrow> rev (shape t) = [shape t ! 1, shape t ! 0]"
  using wf_shape [of t] by (metis rev.simps append_Cons append_Nil)

lemma transpose_div_broadcast:
  assumes "wf_tensor t" and "length v = shape t ! 0"
  shows "transpose_t (div_broadcast (transpose_t t) v) =
           \<lparr>shape = shape t, rows = map2 (\<lambda>r d. map (\<lambda>x. x / d) r) (rows t) v\<rparr>"
proof -
  let ?C = "shape t ! 0" and ?T = "shape t ! 1"
  let ?m = "div_broadcast (transpose_t t) v"
  have len: "length (rows t) = ?C"
    using assms by (simp add: wf_tensor_def)
  have shm: "shape ?m = [?T, ?C]"
    using wf_rev_shape [OF assms(1)] by (simp add: div_broadcast_def transpose_t_def)
  have rm: "rows ?m = map (\<lambda>k. map2 (\<lambda>x d. x / d) (map (\<lambda>r. r ! k) (rows t)) v) [0..<?T]"
    by (simp add: div_broadcast_def transpose_t_def)
  have entry: "map (\<lambda>row. row ! c) (rows ?m) = map (\<lambda>x. x / v ! c) (rows t ! c)" if "c < ?C" for c
  proof -
    have "length (rows t ! c) = ?T"
      using that len wf_row_length [OF assms(1)] by simp
    then show ?thesis
      using that assms(2) len by (intro nth_equalityI) (simp_all add: rm)
  qed
  have "rows (transpose_t ?m) = map (\<lambda>c. map (\<lambda>row. row ! c) (rows ?m)) [0..<?C]"
    using shm by (simp add: transpose_t_def)
  also have "\<dots> = map (\<lambda>c. map (\<lambda>x. x / v ! c) (rows t ! c)) [0..<?C]"
    using entry by simp
  also have "\<dots> = map2 (\<lambda>r d. map (\<lambda>x. x / d) r) (rows t) v"
    using len assms(2) by (intro nth_equalityI) simp_all
  finally have r: "rows (transpose_t ?m) = map2 (\<lambda>r d. map (\<lambda>x. x / d) r) (rows t) v" .
  have s: "shape (transpose_t ?m) = shape t"
    using shm wf_shape [OF assms(1)] by (simp add: transpose_t_def)
  from r s show ?thesis by simp
qed

lemma map2_map_same: "map2 f xs (map g xs) = map (\<lambda>x. f x (g x)) xs"
  by (induction xs) simp_all

text \<open>
  C8. \<open>rms_normalize\<close> of a well-formed \<open>(C, T)\<close> buffer scales each channel by one
  factor, \<open>1 / (rms + 1e-8)\<close>, where \<open>rms\<close> is the square root of the mean of the
  channel's squares. The shape is the input's, and the result is a function of the
  input alone.
\<close>

theorem rms_normalize_scales:
  assumes "wf_tensor t"
  shows "rms_normalize t =
           \<lparr>shape = shape t,
            rows = map (\<lambda>r. map (\<lambda>x. x * (1 / (sqrt (sum_list (map (\<lambda>x. x\<^sup>2) r) / real (length r))
                                               + 1 / 10 ^ 8))) r)
                     (rows t)\<rparr> \<and>
         shape (rms_normalize t) = shape t \<and> wf_tensor (rms_normalize t)"
proof -
  let ?f = "\<lambda>r. sqrt (sum_list (map (\<lambda>x. x\<^sup>2) r) / real (length r)) + 1 / 10 ^ 8"
  have v: "map (\<lambda>m. m + 1 / 10 ^ 8) (rms t) = map ?f (rows t)"
    using wf_row_length [OF assms] by (simp add: rms_def)
  have "rms_normalize t = \<lparr>shape = shape t, rows = map2 (\<lambda>r d. map (\<lambda>x. x / d) r) (rows t) (map ?f (rows t))\<rparr>"
    unfolding rms_normalize_def v
    using assms by (intro transpose_div_broadcast) (simp_all add: wf_tensor_def)
  then have e: "rms_normalize t = \<lparr>shape = shape t, rows = map (\<lambda>r. map (\<lambda>x. x * (1 / ?f r)) r) (rows t)\<rparr>"
    by (simp add: map2_map_same)
  have "wf_tensor \<lparr>shape = shape t, rows = map (\<lambda>r. map (\<lambda>x. x * (1 / ?f r)) r) (rows t)\<rparr>"
    using assms by (simp add: wf_tensor_def list_all_iff)
  with e show ?thesis by simp
qed

theorem rms_normalize_scales_witness:
  "rms_normalize \<lparr>shape = [1, 2], rows = [[3, 4]]\<rparr> =
     \<lparr>shape = [1, 2], rows = [[3 * (1 / (sqrt (25 / 2) + 1 / 10 ^ 8)), 4 * (1 / (sqrt (25 / 2) + 1 / 10 ^ 8))]]\<rparr>"
  using rms_normalize_scales [of "\<lparr>shape = [1, 2], rows = [[3, 4]]\<rparr>"]
  by (simp add: wf_tensor_def)


subsection \<open>Channel selection\<close>

lemma downmix_and_resample_error:
  "downmix_and_resample be a t rate = Inl e \<Longrightarrow> e = IndexError"
  by (auto simp: downmix_and_resample_def Let_def split: if_splits list.splits)

lemma transpose_no_rows:
  "transpose_t \<lparr>shape = [0, m], rows = []\<rparr> = \<lparr>shape = [m, 0], rows = map (\<lambda>k. []) [0..<m]\<rparr>"
  by (simp add: transpose_t_def)

text \<open>
  C1, as the code has it. Let \<open>data\<close> be the well-formed buffer read for the window, and
  \<open>c\<close> the channel of the descriptor. If \<open>c\<close> is between 1 and the number of channels
  of \<open>data\<close>, what is downmixed and resampled is the single row \<open>c - 1\<close> of \<open>data\<close>,
  of shape \<open>(1, length)\<close>. If \<open>c\<close> is 0 or above the number of channels, no check
  rejects it: what is downmixed and resampled is a buffer of no channel and the same
  length. At the native rate that buffer is the result of the read. When the rates
  differ, a mono instance raises \<open>IndexError\<close> on reading row 0 of it, and an instance
  that is not mono returns what the resampler makes of it. In all of this the only error
  that a read raises once its window is read is that \<open>IndexError\<close>.
\<close>

theorem channel_selection:
  assumes "is_valid file = Inr v" and "resolve be file = Inr (src, rate, frames, Some c)"
    and "target_rate a \<noteq> 0"
    and "i = to_native_offset off rate (target_rate a)"
    and "l = (case n of None \<Rightarrow> frames - i | Some k \<Rightarrow> to_native_length k rate (target_rate a))"
    and "i + l \<le> frames"
    and "(case src of File p \<Rightarrow> load be p i l | Memory s \<Rightarrow> Inr (slice_time s i (i + l))) = Inr data"
    and "wf_tensor data"
  shows "(1 \<le> c \<and> c \<le> int (shape data ! 0) \<longrightarrow>
            call be a file off n =
              downmix_and_resample be a
                \<lparr>shape = [1, shape data ! 1], rows = [rows data ! nat (c - 1)]\<rparr> rate) \<and>
         (c = 0 \<or> int (shape data ! 0) < c \<longrightarrow>
            call be a file off n =
              downmix_and_resample be a \<lparr>shape = [0, shape data ! 1], rows = []\<rparr> rate) \<and>
         ((c = 0 \<or> int (shape data ! 0) < c) \<and> target_rate a = rate \<longrightarrow>
            call be a file off n = Inr \<lparr>shape = [0, shape data ! 1], rows = []\<rparr>) \<and>
         ((c = 0 \<or> int (shape data ! 0) < c) \<and> target_rate a \<noteq> rate \<and> mono a \<longrightarrow>
            call be a file off n = Inl IndexError) \<and>
         ((c = 0 \<or> int (shape data ! 0) < c) \<and> target_rate a \<noteq> rate \<and> \<not> mono a \<longrightarrow>
            call be a file off n =
              Inr (transpose_t
                     (resample2 be
                        \<lparr>shape = [shape data ! 1, 0], rows = map (\<lambda>k. []) [0..<shape data ! 1]\<rparr>
                        rate (target_rate a)))) \<and>
         (\<forall>e. call be a file off n = Inl e \<longrightarrow> e = IndexError)"
proof -
  have "call be a file off n = read_window be a src rate frames (Some c) i l"
    unfolding call_window [OF assms(1,2,3), of off n] assms(5) unfolding assms(4) ..
  also have "\<dots> = downmix_and_resample be a (slice_channel data (c - 1) c) rate"
    using assms(6,7) by (simp add: read_window_def)
  finally have e: "call be a file off n
      = downmix_and_resample be a (slice_channel data (c - 1) c) rate" .
  have o: "slice_channel data (c - 1) c = \<lparr>shape = [0, shape data ! 1], rows = []\<rparr>"
    if "c = 0 \<or> int (shape data ! 0) < c"
    by (rule slice_channel_outside [OF assms(8) that])
  have 1: "1 \<le> c \<and> c \<le> int (shape data ! 0) \<longrightarrow>
            call be a file off n =
              downmix_and_resample be a
                \<lparr>shape = [1, shape data ! 1], rows = [rows data ! nat (c - 1)]\<rparr> rate"
    using assms(8) by (simp add: e slice_channel_single)
  have 2: "c = 0 \<or> int (shape data ! 0) < c \<longrightarrow>
            call be a file off n =
              downmix_and_resample be a \<lparr>shape = [0, shape data ! 1], rows = []\<rparr> rate"
    using o by (simp add: e)
  have 3: "(c = 0 \<or> int (shape data ! 0) < c) \<and> target_rate a = rate \<longrightarrow>
            call be a file off n = Inr \<lparr>shape = [0, shape data ! 1], rows = []\<rparr>"
    using o by (simp add: e downmix_only)
  have 4: "(c = 0 \<or> int (shape data ! 0) < c) \<and> target_rate a \<noteq> rate \<and> mono a \<longrightarrow>
            call be a file off n = Inl IndexError"
    using o by (simp add: e downmix_and_resample_def)
  have 5: "(c = 0 \<or> int (shape data ! 0) < c) \<and> target_rate a \<noteq> rate \<and> \<not> mono a \<longrightarrow>
            call be a file off n =
              Inr (transpose_t
                     (resample2 be
                        \<lparr>shape = [shape data ! 1, 0], rows = map (\<lambda>k. []) [0..<shape data ! 1]\<rparr>
                        rate (target_rate a)))"
    using o by (simp add: e downmix_and_resample_def transpose_no_rows)
  have 6: "\<forall>e. call be a file off n = Inl e \<longrightarrow> e = IndexError"
    using downmix_and_resample_error by (simp add: e)
  from 1 2 3 4 5 6 show ?thesis by blast
qed

theorem channel_selection_witness:
  "call stub \<lparr>target_rate = 16000, mono = True\<rparr> (in_memory stereo 16000 (Some 2)) 0 None
     = Inr \<lparr>shape = [1, 3], rows = [[4, 5, 6]]\<rparr> \<and>
   call stub \<lparr>target_rate = 8000, mono = True\<rparr> (in_memory stereo 16000 (Some 5)) 0 None
     = Inl IndexError"
proof -
  have d: "(case Memory stereo of File p \<Rightarrow> load stub p 0 3
            | Memory s \<Rightarrow> Inr (slice_time s 0 (0 + 3))) = Inr stereo"
    using slice_time_whole [OF wf_stereo] by (simp add: stereo_def)
  have i: "0 = to_native_offset 0 16000 8000"
    by (simp add: to_native_offset_def py_round_def)
  have "call stub \<lparr>target_rate = 16000, mono = True\<rparr> (in_memory stereo 16000 (Some 2)) 0 None
      = downmix_and_resample stub \<lparr>target_rate = 16000, mono = True\<rparr>
          \<lparr>shape = [1, shape stereo ! 1], rows = [rows stereo ! nat (2 - 1)]\<rparr> 16000"
    using channel_selection [of "in_memory stereo 16000 (Some 2)" True stub "Memory stereo"
        16000 3 2 "\<lparr>target_rate = 16000, mono = True\<rparr>" 0 0 3 None stereo,
        OF stereo_valid stereo_resolve _ _ _ _ d wf_stereo]
    by (simp add: to_native_offset_same) (simp add: stereo_def)
  then have 1: "call stub \<lparr>target_rate = 16000, mono = True\<rparr>
      (in_memory stereo 16000 (Some 2)) 0 None = Inr \<lparr>shape = [1, 3], rows = [[4, 5, 6]]\<rparr>"
    by (simp add: downmix_only stereo_def)
  have 2: "call stub \<lparr>target_rate = 8000, mono = True\<rparr>
      (in_memory stereo 16000 (Some 5)) 0 None = Inl IndexError"
    using channel_selection [of "in_memory stereo 16000 (Some 5)" True stub "Memory stereo"
        16000 3 5 "\<lparr>target_rate = 8000, mono = True\<rparr>" 0 0 3 None stereo,
        OF stereo_valid stereo_resolve _ _ _ _ d wf_stereo,
        THEN conjunct2, THEN conjunct2, THEN conjunct2, THEN conjunct1] i
    by (simp add: stereo_def)
  from 1 2 show ?thesis ..
qed

text \<open>
  C1 as the specification words it has the read of channel 5 of a stereo buffer fail
  with a channel index error. It returns a buffer of shape \<open>(0, 3)\<close>.
\<close>

theorem channel_out_of_range_counterexample:
  "call stub \<lparr>target_rate = 16000, mono = False\<rparr> (in_memory stereo 16000 (Some 5)) 0 None
     = Inr \<lparr>shape = [0, 3], rows = []\<rparr>"
  by (simp add: call_def is_valid_def resolve_def in_memory_def stereo_def py_round_def
        read_window_def slice_time_def slice_channel_def downmix_and_resample_def py_slice_def
        slice_len_def slice_index_def)

subsection \<open>The shape of what is read\<close>

subsection \<open>The shape of what is read\<close>






subsection \<open>An offset past the end\<close>

subsection \<open>An offset past the end\<close>

lemma py_slice_subset: "set (py_slice xs i j) \<subseteq> set xs"
  unfolding py_slice_def using set_take_subset set_drop_subset by fast

text \<open>
  C10, as the code has it. An in-memory source is read with no length, from an offset
  whose translation to the native rate lies after the last sample. The length computed
  is negative; offset plus length is the length of the source, so the bounds check
  passes and the read never raises its error; the slice is a buffer of the source's
  channels and no time step, and \<open>z\<close> is what channel selection leaves of it. The read
  is what downmix and resampling make of \<open>z\<close>. At the native rate it returns an empty
  buffer: \<open>z\<close> itself (the \<open>(C, 0)\<close> slice when no channel is selected), or a
  \<open>(1, 0)\<close> buffer where a mono instance downmixes more than one channel. When the
  rates differ, a mono instance hands the resampler an empty row, or raises
  \<open>IndexError\<close> if \<open>z\<close> has no row to read; an instance that is not mono hands the
  resampler the transposed \<open>z\<close>.
\<close>

theorem offset_past_end:
  assumes "samples d = Some s" and "sample_rate d = Some r" and "is_valid (Dict d) = Inr v"
    and "target_rate a \<noteq> 0"
    and "int (shape s ! 1) < to_native_offset off r (target_rate a)"
    and "z = (case channel d of
                None \<Rightarrow> \<lparr>shape = [shape s ! 0, 0], rows = map (\<lambda>r. []) (rows s)\<rparr>
              | Some c \<Rightarrow>
                  slice_channel \<lparr>shape = [shape s ! 0, 0], rows = map (\<lambda>r. []) (rows s)\<rparr>
                    (c - 1) c)"
  shows "int (shape s ! 1) - to_native_offset off r (target_rate a) < 0 \<and>
         \<not> int (shape s ! 1)
             < to_native_offset off r (target_rate a)
               + (int (shape s ! 1) - to_native_offset off r (target_rate a)) \<and>
         call be a (Dict d) off None = downmix_and_resample be a z r \<and>
         call be a (Dict d) off None \<noteq> Inl RangeOverflowError \<and>
         (target_rate a = r \<longrightarrow>
            call be a (Dict d) off None
              = Inr (if mono a \<and> 1 < shape z ! 0 then \<lparr>shape = [1, 0], rows = [[]]\<rparr> else z)) \<and>
         (target_rate a = r \<and> \<not> mono a \<and> channel d = None \<longrightarrow>
            call be a (Dict d) off None
              = Inr \<lparr>shape = [shape s ! 0, 0], rows = map (\<lambda>r. []) (rows s)\<rparr>) \<and>
         (target_rate a = r \<longrightarrow>
            (\<exists>y. call be a (Dict d) off None = Inr y \<and> length (shape y) = 2 \<and> shape y ! 1 = 0)) \<and>
         (target_rate a \<noteq> r \<and> mono a \<longrightarrow>
            call be a (Dict d) off None
              = (if \<not> 1 < shape z ! 0 \<and> rows z = [] then Inl IndexError
                 else Inr \<lparr>shape = [1, length (resample1 be [] r (target_rate a))],
                           rows = [resample1 be [] r (target_rate a)]\<rparr>)) \<and>
         (target_rate a \<noteq> r \<and> \<not> mono a \<longrightarrow>
            call be a (Dict d) off None
              = Inr (transpose_t (resample2 be (transpose_t z) r (target_rate a)))) \<and>
         slice_time s (to_native_offset off r (target_rate a))
           (to_native_offset off r (target_rate a)
            + (int (shape s ! 1) - to_native_offset off r (target_rate a)))
           = \<lparr>shape = [shape s ! 0, 0], rows = map (\<lambda>r. []) (rows s)\<rparr>"
proof -
  let ?i = "to_native_offset off r (target_rate a)"
  let ?e = "\<lparr>shape = [shape s ! 0, 0], rows = map (\<lambda>r. []) (rows s)\<rparr>"
  have w: "call be a (Dict d) off None
      = read_window be a (Memory s) r (int (shape s ! 1)) (channel d) ?i (int (shape s ! 1) - ?i)"
    by (simp add: call_window [OF assms(3) resolve_in_memory [OF assms(1,2)] assms(4)])
  note e = slice_time_past [OF assms(5), unfolded One_nat_def]
  have c: "call be a (Dict d) off None = downmix_and_resample be a z r"
    unfolding w assms(6) by (cases "channel d") (simp_all add: read_window_def e)
  have z: "length (shape z) = 2 \<and> shape z ! 1 = 0"
    unfolding assms(6) by (cases "channel d") (simp_all add: slice_channel_def)
  have rz: "\<forall>x \<in> set (rows z). x = []"
  proof (cases "channel d")
    case None
    then show ?thesis
      unfolding assms(6) by auto
  next
    case (Some c)
    show ?thesis
      unfolding assms(6) Some using py_slice_subset by (fastforce simp: slice_channel_def)
  qed
  have m: "mean_dim0 z = \<lparr>shape = [1, 0], rows = [[]]\<rparr>"
    using z by (simp add: mean_dim0_def)
  have n: "call be a (Dict d) off None
              = Inr (if mono a \<and> 1 < shape z ! 0 then \<lparr>shape = [1, 0], rows = [[]]\<rparr> else z)"
    if "target_rate a = r"
    using that by (simp add: c downmix_only m)
  have x: "\<exists>y. call be a (Dict d) off None = Inr y \<and> length (shape y) = 2 \<and> shape y ! 1 = 0"
    if "target_rate a = r"
    using n [OF that] z by auto
  have p: "call be a (Dict d) off None = Inr ?e"
    if "target_rate a = r" "\<not> mono a" "channel d = None"
    using that n assms(6) by simp
  have o: "call be a (Dict d) off None \<noteq> Inl RangeOverflowError"
    using downmix_and_resample_error [of be a z r RangeOverflowError]
    by (auto simp: c RangeOverflowError_def)
  have q: "call be a (Dict d) off None
              = (if \<not> 1 < shape z ! 0 \<and> rows z = [] then Inl IndexError
                 else Inr \<lparr>shape = [1, length (resample1 be [] r (target_rate a))],
                           rows = [resample1 be [] r (target_rate a)]\<rparr>)"
    if "target_rate a \<noteq> r" "mono a"
  proof (cases "1 < shape z ! 0")
    case True
    then show ?thesis
      using that by (simp add: c downmix_and_resample_def m Let_def)
  next
    case False
    then show ?thesis
      using that rz by (cases "rows z") (simp_all add: c downmix_and_resample_def Let_def)
  qed
  have u: "call be a (Dict d) off None
              = Inr (transpose_t (resample2 be (transpose_t z) r (target_rate a)))"
    if "target_rate a \<noteq> r" "\<not> mono a"
    using that by (simp add: c downmix_and_resample_def)
  have k: "slice_time s ?i (?i + (int (shape s ! 1) - ?i)) = ?e"
    using slice_time_past [OF assms(5)] by simp
  from assms(5) c o n p x q u k show ?thesis by auto
qed

theorem offset_past_end_witness:
  "call stub \<lparr>target_rate = 16000, mono = False\<rparr> (in_memory stereo 16000 None) 7 None
     = Inr \<lparr>shape = [2, 0], rows = [[], []]\<rparr>"
proof -
  let ?d = "\<lparr>samples = Some stereo, sample_rate = Some 16000, audio = None, channel = None\<rparr>"
  let ?a = "\<lparr>target_rate = 16000, mono = False\<rparr>"
  let ?z = "\<lparr>shape = [shape stereo ! 0, 0], rows = map (\<lambda>r. []) (rows stereo)\<rparr>"
  have v: "is_valid (Dict ?d) = Inr True"
    using stereo_valid [of 16000 None] by (simp add: in_memory_def)
  have p: "int (shape stereo ! 1) < to_native_offset 7 16000 (target_rate ?a)"
    by (simp add: to_native_offset_same stereo_def)
  have z: "?z = (case channel ?d of None \<Rightarrow> ?z | Some c \<Rightarrow> slice_channel ?z (c - 1) c)"
    by simp
  have "call stub ?a (Dict ?d) 7 None = Inr ?z"
    using offset_past_end [of ?d stereo 16000 True ?a 7 ?z stub, OF _ _ v _ p z,
        THEN conjunct2, THEN conjunct2, THEN conjunct2, THEN conjunct2, THEN conjunct2,
        THEN conjunct1]
    by simp
  then show ?thesis
    by (simp add: in_memory_def stereo_def)
qed

text \<open>
  C10 as the specification words it has such a read return a \<open>(C, 0)\<close> buffer and
  raise no error. Of a stereo buffer, a mono instance at the native rate returns a
  \<open>(1, 0)\<close> buffer; and a mono instance at another rate, asked for channel 5, raises
  \<open>IndexError\<close>.
\<close>

theorem offset_past_end_counterexample:
  "call stub \<lparr>target_rate = 16000, mono = True\<rparr> (in_memory stereo 16000 None) 7 None
     = Inr \<lparr>shape = [1, 0], rows = [[]]\<rparr> \<and>
   call stub \<lparr>target_rate = 8000, mono = True\<rparr> (in_memory stereo 16000 (Some 5)) 7 None
     = Inl IndexError"
  by (simp add: call_def is_valid_def resolve_def in_memory_def stereo_def py_round_def
        read_window_def slice_time_def slice_channel_def downmix_and_resample_def py_slice_def
        slice_len_def slice_index_def mean_dim0_def)

end
